theory Spec2Isabelle
  imports Main "HOL-Library.Sublist"
begin

section \<open>Values and block nodes of \<open>md_translate/document/_blocks.py\<close>\<close>

text \<open>
  The Python values that the block classes store, receive and emit: \<open>None\<close>, booleans,
  integers, strings, lists, tuples, dicts (a dict as an association list with distinct
  string keys, looked up with \<open>map_of\<close>), class objects, and instances of the block
  classes. The only class object the module stores in a field is \<open>str\<close>, the declared
  default of \<open>ImageBlock.alt\<close>.

  A block has one constructor per class of the module, the fields in declaration order
  (inherited fields first). \<open>Translatable\<close> and \<open>BaseBlock\<close> are the two base classes; both
  can be instantiated. \<open>ListItemBlock.children\<close> is declared \<open>List[Translatable]\<close>, whose
  validation leaves instances only; the other slots for nested nodes
  (\<open>ListBlock.children\<close>, \<open>LinkBlock.text\<close>, \<open>RawDataBlock.data\<close>) can hold any value.
  \<open>ImageBlock.alt\<close> is \<open>None\<close> here when it was left at its default.
\<close>

datatype pyval =
    PNone
  | PBool bool
  | PInt int
  | PStr string
  | PList "pyval list"
  | PTuple "pyval list"
  | PDict "(string \<times> pyval) list"
  | PClass string
  | PObj block
and block =
    BaseBlock
  | Translatable string "string option"
  | RawDataBlock string pyval
  | TextBlock string "string option" bool bool
  | LinkBlock string "string option" "pyval list option"
  | ImageBlock string "string option" "string option"
  | HeadingBlock string "string option" int
  | SeparatorBlock
  | CodeBlock string "string option"
  | HtmlBlock string
  | ListItemBlock "block list"
  | ListBlock "pyval list" bool

datatype py_error =
    TypeError
  | NotImplementedError
  | ValueError string
  | ValidationError

subsection \<open>Strings\<close>

definition newline :: string where
  "newline = [CHR 0x0A]"

text \<open>\<open>sep.join(xs)\<close>.\<close>

fun join :: "string \<Rightarrow> string list \<Rightarrow> string" where
  "join sep [] = []"
| "join sep [x] = x"
| "join sep (x # y # ys) = x @ sep @ join sep (y # ys)"

definition digit_char :: "nat \<Rightarrow> char" where
  "digit_char d = ''0123456789'' ! d"

text \<open>\<open>str(n)\<close> for a non-negative integer: its decimal digits.\<close>

function str_nat :: "nat \<Rightarrow> string" where
  "str_nat n = (if n < 10 then [digit_char n] else str_nat (n div 10) @ [digit_char (n mod 10)])"
  by pat_completeness auto
termination
  by (relation "measure id") auto

declare str_nat.simps [simp del]

definition str_int :: "int \<Rightarrow> string" where
  "str_int i = (if i < 0 then CHR ''-'' # str_nat (nat (- i)) else str_nat (nat i))"

text \<open>\<open>str\<close> of a builtin class object, as in \<open><class 'str'>\<close>.\<close>

definition str_class :: "string \<Rightarrow> string" where
  "str_class name = ''<class '' @ [CHR 0x27] @ name @ [CHR 0x27] @ ''>''"

subsection \<open>Rendering: the \<open>__str__\<close> methods\<close>

text \<open>
  \<open>render\<close> is \<open>str(block)\<close>, dispatched on the class, and \<open>py_str\<close> is \<open>str(v)\<close> on any
  value. An exception is \<open>Inl\<close>. The list comprehensions evaluate \<open>str\<close> on the elements
  from left to right and the first exception leaves the method: \<open>py_str_all\<close> and
  \<open>render_blocks\<close>.

  \<^item> \<open>BaseBlock.__str__\<close> raises \<open>NotImplementedError\<close>.
  \<^item> \<open>Translatable.__str__\<close> (reached by an instance of \<open>Translatable\<close> itself; the two
    subclasses override it): when \<open>translated_text\<close> is \<open>None\<close> it evaluates
    \<open>'\n\n'.join([self.text, None])\<close>, a \<open>TypeError\<close>; otherwise it returns \<open>self.text\<close>.
  \<^item> \<open>LinkBlock.__str__\<close> evaluates \<open>map(str, self.text)\<close> first: a \<open>TypeError\<close> when
    \<open>text\<close> is \<open>None\<close>. The label is the joined text, or \<open>str(self.title)\<close> when the joined
    text is empty.
  \<^item> \<open>ListBlock.__str__\<close> numbers with \<open>enumerate(self.children)\<close>, which counts from 0;
    \<open>list_lines\<close> is the comprehension with the counter explicit.
  \<^item> On a string \<open>str\<close> is the string itself; \<open>None\<close>, booleans, integers and class
    objects print as Python prints them. On a list, a tuple or a dict \<open>str\<close> is the
    builtin \<open>repr\<close>, which is not part of this module and never raises: it is the
    parameter \<open>rp\<close>, any total function.
\<close>

definition list_prefix :: "bool \<Rightarrow> nat \<Rightarrow> string" where
  "list_prefix ordered counter = (if ordered then str_nat counter @ ''.'' else ''*'')"

fun list_lines :: "bool \<Rightarrow> nat \<Rightarrow> string list \<Rightarrow> string list" where
  "list_lines ordered counter [] = []"
| "list_lines ordered counter (item # items) =
     (list_prefix ordered counter @ '' '' @ item) # list_lines ordered (Suc counter) items"

fun render :: "(pyval \<Rightarrow> string) \<Rightarrow> block \<Rightarrow> py_error + string"
and py_str :: "(pyval \<Rightarrow> string) \<Rightarrow> pyval \<Rightarrow> py_error + string"
and py_str_all :: "(pyval \<Rightarrow> string) \<Rightarrow> pyval list \<Rightarrow> py_error + string list"
and render_blocks :: "(pyval \<Rightarrow> string) \<Rightarrow> block list \<Rightarrow> py_error + string list" where
  "render rp BaseBlock = Inl NotImplementedError"
| "render rp (Translatable text translated_text) =
     (case translated_text of None \<Rightarrow> Inl TypeError | Some _ \<Rightarrow> Inr text)"
| "render rp (RawDataBlock name data) = py_str rp data"
| "render rp (TextBlock text translated_text strong emphasis) =
     (if strong then Inr (''**'' @ text @ ''**'')
      else if emphasis then Inr (''*'' @ text @ ''*'')
      else Inr text)"
| "render rp (LinkBlock link title text) =
     (case text of
        None \<Rightarrow> Inl TypeError
      | Some ns \<Rightarrow>
          (case py_str_all rp ns of
             Inl e \<Rightarrow> Inl e
           | Inr strs \<Rightarrow>
               Inr (''['' @ (if join '' '' strs \<noteq> [] then join '' '' strs
                            else (case title of None \<Rightarrow> ''None'' | Some t \<Rightarrow> t))
                    @ '']('' @ link @ '')'')))"
| "render rp (ImageBlock src alt title) =
     Inr (''!['' @ (case alt of None \<Rightarrow> str_class ''str'' | Some a \<Rightarrow> a) @ '']('' @ src @ '')'')"
| "render rp (HeadingBlock text translated_text level) =
     Inr (replicate (nat level) CHR ''#'' @ '' '' @ text)"
| "render rp SeparatorBlock = Inr ''---''"
| "render rp (CodeBlock code language) =
     Inr (''```'' @ (case language of None \<Rightarrow> [] | Some l \<Rightarrow> l) @ newline @ code @ newline @ ''```'')"
| "render rp (HtmlBlock code) = Inr code"
| "render rp (ListItemBlock children) =
     (case render_blocks rp children of Inl e \<Rightarrow> Inl e | Inr strs \<Rightarrow> Inr (concat strs))"
| "render rp (ListBlock children ordered) =
     (case py_str_all rp children of
        Inl e \<Rightarrow> Inl e
      | Inr strs \<Rightarrow> Inr (join newline (list_lines ordered 0 strs)))"
| "py_str rp (PObj b) = render rp b"
| "py_str rp (PStr s) = Inr s"
| "py_str rp PNone = Inr ''None''"
| "py_str rp (PBool b) = Inr (if b then ''True'' else ''False'')"
| "py_str rp (PInt i) = Inr (str_int i)"
| "py_str rp (PClass name) = Inr (str_class name)"
| "py_str rp (PList xs) = Inr (rp (PList xs))"
| "py_str rp (PTuple xs) = Inr (rp (PTuple xs))"
| "py_str rp (PDict kvs) = Inr (rp (PDict kvs))"
| "py_str_all rp [] = Inr []"
| "py_str_all rp (v # vs) =
     (case py_str rp v of
        Inl e \<Rightarrow> Inl e
      | Inr s \<Rightarrow> (case py_str_all rp vs of Inl e \<Rightarrow> Inl e | Inr strs \<Rightarrow> Inr (s # strs)))"
| "render_blocks rp [] = Inr []"
| "render_blocks rp (b # bs) =
     (case render rp b of
        Inl e \<Rightarrow> Inl e
      | Inr s \<Rightarrow> (case render_blocks rp bs of Inl e \<Rightarrow> Inl e | Inr strs \<Rightarrow> Inr (s # strs)))"

subsection \<open>\<open>should_be_translated\<close>\<close>

text \<open>
  \<open>TextBlock\<close> and \<open>HeadingBlock\<close> list \<open>Translatable\<close> before \<open>BaseBlock\<close> among their
  bases, so they and \<open>Translatable\<close> itself resolve \<open>should_be_translated\<close> to
  \<open>Translatable.should_be_translated\<close>, which tests \<open>translated_text is None\<close>. Every
  other class has \<open>BaseBlock\<close> as its only base and keeps \<open>BaseBlock.should_be_translated\<close>,
  which returns \<open>False\<close>. The class constant \<open>IS_TRANSLATABLE\<close> is read by no method.
\<close>

fun inherits_Translatable :: "block \<Rightarrow> bool" where
  "inherits_Translatable (Translatable text translated_text) = True"
| "inherits_Translatable (TextBlock text translated_text strong emphasis) = True"
| "inherits_Translatable (HeadingBlock text translated_text level) = True"
| "inherits_Translatable b = False"

text \<open>The field \<open>translated_text\<close>; \<open>None\<close> also for a class that does not declare it.\<close>

fun translated_text :: "block \<Rightarrow> string option" where
  "translated_text (Translatable text tr) = tr"
| "translated_text (TextBlock text tr strong emphasis) = tr"
| "translated_text (HeadingBlock text tr level) = tr"
| "translated_text b = None"

fun should_be_translated :: "block \<Rightarrow> bool" where
  "should_be_translated (Translatable text tr) = (tr = None)"
| "should_be_translated (TextBlock text tr strong emphasis) = (tr = None)"
| "should_be_translated (HeadingBlock text tr level) = (tr = None)"
| "should_be_translated b = False"

section \<open>The codec: \<open>BaseBlock.dict\<close> and \<open>BaseBlock.validate\<close>\<close>

subsection \<open>Encoding\<close>

text \<open>
  \<open>encode b\<close> is \<open>b.dict()\<close>. The inherited \<open>dict()\<close> lists the fields in order and
  converts each value (\<open>encode_val\<close>): an instance by its own \<open>dict()\<close>, a list, tuple
  or dict element by element, anything else unchanged. \<open>BaseBlock.dict\<close> then stores the
  class name under \<open>block_type\<close> (\<open>tagged\<close>). \<open>Translatable\<close> does not derive from
  \<open>BaseBlock\<close>: the dict of an instance of \<open>Translatable\<close> itself carries no
  \<open>block_type\<close>.
\<close>

fun opt_str :: "string option \<Rightarrow> pyval" where
  "opt_str None = PNone"
| "opt_str (Some s) = PStr s"

definition tagged :: "string \<Rightarrow> (string \<times> pyval) list \<Rightarrow> pyval" where
  "tagged name data = PDict (data @ [(''block_type'', PStr name)])"

fun encode :: "block \<Rightarrow> pyval"
and encode_val :: "pyval \<Rightarrow> pyval" where
  "encode BaseBlock = tagged ''BaseBlock'' []"
| "encode (Translatable text tr) =
     PDict [(''text'', PStr text), (''translated_text'', opt_str tr)]"
| "encode (RawDataBlock name data) =
     tagged ''RawDataBlock'' [(''name'', PStr name), (''data'', encode_val data)]"
| "encode (TextBlock text tr strong emphasis) =
     tagged ''TextBlock''
       [(''text'', PStr text), (''translated_text'', opt_str tr),
        (''strong'', PBool strong), (''emphasis'', PBool emphasis)]"
| "encode (LinkBlock link title text) =
     tagged ''LinkBlock''
       [(''link'', PStr link), (''title'', opt_str title),
        (''text'', (case text of None \<Rightarrow> PNone | Some vs \<Rightarrow> PList (map encode_val vs)))]"
| "encode (ImageBlock src alt title) =
     tagged ''ImageBlock''
       [(''src'', PStr src), (''alt'', (case alt of None \<Rightarrow> PClass ''str'' | Some a \<Rightarrow> PStr a)),
        (''title'', opt_str title)]"
| "encode (HeadingBlock text tr level) =
     tagged ''HeadingBlock''
       [(''text'', PStr text), (''translated_text'', opt_str tr), (''level'', PInt level)]"
| "encode SeparatorBlock = tagged ''SeparatorBlock'' []"
| "encode (CodeBlock code language) =
     tagged ''CodeBlock'' [(''code'', PStr code), (''language'', opt_str language)]"
| "encode (HtmlBlock code) = tagged ''HtmlBlock'' [(''code'', PStr code)]"
| "encode (ListItemBlock children) =
     tagged ''ListItemBlock'' [(''children'', PList (map encode children))]"
| "encode (ListBlock children ordered) =
     tagged ''ListBlock'' [(''children'', PList (map encode_val children)), (''ordered'', PBool ordered)]"
| "encode_val (PObj b) = encode b"
| "encode_val (PList xs) = PList (map encode_val xs)"
| "encode_val (PTuple xs) = PTuple (map encode_val xs)"
| "encode_val (PDict kvs) = PDict (map (\<lambda>(k, v). (k, encode_val v)) kvs)"
| "encode_val v = v"


subsection \<open>The module namespace\<close>

text \<open>
  \<open>globals()\<close> of the module: the names every module has, the names it imports, and its
  twelve classes. Only a class can be called with keyword arguments; calling any of the
  others raises \<open>TypeError\<close>.
\<close>

definition block_classes :: "string list" where
  "block_classes =
     [''BaseBlock'', ''Translatable'', ''RawDataBlock'', ''TextBlock'', ''LinkBlock'',
      ''ImageBlock'', ''HeadingBlock'', ''SeparatorBlock'', ''CodeBlock'', ''HtmlBlock'',
      ''ListItemBlock'', ''ListBlock'']"

definition other_globals :: "string list" where
  "other_globals =
     [''__name__'', ''__doc__'', ''__package__'', ''__loader__'', ''__spec__'', ''__file__'',
      ''__cached__'', ''__builtins__'', ''Any'', ''ClassVar'', ''Dict'', ''List'', ''Optional'',
      ''pydantic'']"

definition module_globals :: "string list" where
  "module_globals = other_globals @ block_classes"

subsection \<open>Python protocols on values\<close>

text \<open>
  \<open>hashable\<close>: whether \<open>v in globals()\<close> can hash \<open>v\<close> (lists, dicts and model instances
  cannot be hashed). \<open>truthy\<close>: the test \<open>if children:\<close>; \<open>RawDataBlock.__bool__\<close> is
  \<open>bool(self.data)\<close>, every other instance is true. \<open>instance_fields\<close>: the field values of an
  instance in order, which iterating over the instance yields as pairs.
\<close>

fun hashable :: "pyval \<Rightarrow> bool" where
  "hashable (PList xs) = False"
| "hashable (PDict kvs) = False"
| "hashable (PObj b) = False"
| "hashable (PTuple xs) = list_all hashable xs"
| "hashable v = True"

fun truthy :: "pyval \<Rightarrow> bool" where
  "truthy PNone = False"
| "truthy (PBool b) = b"
| "truthy (PInt i) = (i \<noteq> 0)"
| "truthy (PStr s) = (s \<noteq> [])"
| "truthy (PList xs) = (xs \<noteq> [])"
| "truthy (PTuple xs) = (xs \<noteq> [])"
| "truthy (PDict kvs) = (kvs \<noteq> [])"
| "truthy (PClass name) = True"
| "truthy (PObj (RawDataBlock name data)) = truthy data"
| "truthy (PObj b) = True"

fun instance_fields :: "block \<Rightarrow> (string \<times> pyval) list" where
  "instance_fields BaseBlock = []"
| "instance_fields (Translatable text tr) = [(''text'', PStr text), (''translated_text'', opt_str tr)]"
| "instance_fields (RawDataBlock name data) = [(''name'', PStr name), (''data'', data)]"
| "instance_fields (TextBlock text tr strong emphasis) =
     [(''text'', PStr text), (''translated_text'', opt_str tr),
      (''strong'', PBool strong), (''emphasis'', PBool emphasis)]"
| "instance_fields (LinkBlock link title text) =
     [(''link'', PStr link), (''title'', opt_str title),
      (''text'', (case text of None \<Rightarrow> PNone | Some vs \<Rightarrow> PList vs))]"
| "instance_fields (ImageBlock src alt title) =
     [(''src'', PStr src), (''alt'', (case alt of None \<Rightarrow> PClass ''str'' | Some a \<Rightarrow> PStr a)),
      (''title'', opt_str title)]"
| "instance_fields (HeadingBlock text tr level) =
     [(''text'', PStr text), (''translated_text'', opt_str tr), (''level'', PInt level)]"
| "instance_fields SeparatorBlock = []"
| "instance_fields (CodeBlock code language) = [(''code'', PStr code), (''language'', opt_str language)]"
| "instance_fields (HtmlBlock code) = [(''code'', PStr code)]"
| "instance_fields (ListItemBlock children) = [(''children'', PList (map PObj children))]"
| "instance_fields (ListBlock children ordered) = [(''children'', PList children), (''ordered'', PBool ordered)]"

text \<open>\<open>child.pop(key)\<close> and \<open>values[key] = v\<close> for a key that is present.\<close>

definition del_key :: "string \<Rightarrow> (string \<times> pyval) list \<Rightarrow> (string \<times> pyval) list" where
  "del_key k kvs = filter (\<lambda>kv. fst kv \<noteq> k) kvs"

definition set_key :: "string \<Rightarrow> pyval \<Rightarrow> (string \<times> pyval) list \<Rightarrow> (string \<times> pyval) list" where
  "set_key k v kvs = map (\<lambda>kv. if fst kv = k then (k, v) else kv) kvs"

subsection \<open>Field validation\<close>

text \<open>
  The constructors are pydantic's: \<open>Cls(**kwargs)\<close> runs the root validator
  \<open>BaseBlock.validate\<close> on the keyword dict (for the subclasses of \<open>BaseBlock\<close>), then
  checks each declared field; keys that are not fields are ignored. A \<open>ValueError\<close> or
  \<open>TypeError\<close> raised by a validator comes out of the constructor as pydantic's
  \<open>ValidationError\<close>, any other exception as itself (\<open>wrap\<close>).

  A field value is accepted here when it has the declared type: a string for \<open>str\<close>,
  \<open>None\<close> or a string for \<open>Optional[str]\<close>, a boolean for \<open>bool\<close>, an integer for \<open>int\<close>,
  a list or tuple for \<open>List[...]\<close>. A missing optional field takes its default, a missing
  required field is an error; \<open>data: Any\<close> takes any value and defaults to \<open>None\<close>.
  pydantic also converts some values of other types (a number given for a string field,
  a numeric string given for an integer field, the strings and numbers it reads as
  booleans, a sequence of pairs given for a nested model); those are rejected here, and
  \<open>dict()\<close> emits none of them.

  \<^item> \<open>TextBlock.validate_text\<close> runs before the check of \<open>text\<close>: a list is replaced by
    \<open>''.join(map(str, value))\<close>.
  \<^item> \<open>ImageBlock.alt\<close> is declared with \<open>Field(default=str)\<close>: when the key is missing
    the field holds the class \<open>str\<close>, unvalidated.
  \<^item> An element of \<open>ListItemBlock.children\<close> (\<open>List[Translatable]\<close>) is kept when it is
    an instance of a class deriving from \<open>Translatable\<close>; a dict is passed to
    \<open>Translatable(**d)\<close>.
\<close>

definition wrap :: "py_error \<Rightarrow> py_error" where
  "wrap e = (if e = NotImplementedError then NotImplementedError else ValidationError)"

definition required_str :: "(string \<times> pyval) list \<Rightarrow> string \<Rightarrow> py_error + string" where
  "required_str values key =
     (case map_of values key of Some (PStr s) \<Rightarrow> Inr s | _ \<Rightarrow> Inl ValidationError)"

definition optional_str :: "(string \<times> pyval) list \<Rightarrow> string \<Rightarrow> py_error + string option" where
  "optional_str values key =
     (case map_of values key of
        None \<Rightarrow> Inr None
      | Some PNone \<Rightarrow> Inr None
      | Some (PStr s) \<Rightarrow> Inr (Some s)
      | _ \<Rightarrow> Inl ValidationError)"

definition bool_field :: "(string \<times> pyval) list \<Rightarrow> string \<Rightarrow> py_error + bool" where
  "bool_field values key =
     (case map_of values key of
        None \<Rightarrow> Inr False
      | Some (PBool b) \<Rightarrow> Inr b
      | _ \<Rightarrow> Inl ValidationError)"

definition required_int :: "(string \<times> pyval) list \<Rightarrow> string \<Rightarrow> py_error + int" where
  "required_int values key =
     (case map_of values key of Some (PInt i) \<Rightarrow> Inr i | _ \<Rightarrow> Inl ValidationError)"


definition and_then :: "py_error + 'a \<Rightarrow> ('a \<Rightarrow> py_error + 'b) \<Rightarrow> py_error + 'b" where
  "and_then r f = (case r of Inl e \<Rightarrow> Inl e | Inr x \<Rightarrow> f x)"

definition validate_text :: "(pyval \<Rightarrow> string) \<Rightarrow> (string \<times> pyval) list \<Rightarrow> py_error + string" where
  "validate_text rp values =
     (case map_of values ''text'' of
        Some (PList xs) \<Rightarrow>
          (case py_str_all rp xs of Inl e \<Rightarrow> Inl (wrap e) | Inr strs \<Rightarrow> Inr (concat strs))
      | Some (PStr s) \<Rightarrow> Inr s
      | _ \<Rightarrow> Inl ValidationError)"

definition init_Translatable :: "(string \<times> pyval) list \<Rightarrow> py_error + block" where
  "init_Translatable values =
     and_then (required_str values ''text'') (\<lambda>text.
     and_then (optional_str values ''translated_text'') (\<lambda>tr.
     Inr (Translatable text tr)))"

fun translatable_children :: "pyval list \<Rightarrow> py_error + block list" where
  "translatable_children [] = Inr []"
| "translatable_children (p # ps) =
     and_then
       (case p of
          PObj b \<Rightarrow> if inherits_Translatable b then Inr b else Inl ValidationError
        | PDict d \<Rightarrow> init_Translatable d
        | _ \<Rightarrow> Inl ValidationError)
       (\<lambda>b. and_then (translatable_children ps) (\<lambda>bs. Inr (b # bs)))"

definition init_fields :: "(pyval \<Rightarrow> string) \<Rightarrow> string \<Rightarrow> (string \<times> pyval) list \<Rightarrow> py_error + block" where
  "init_fields rp name values =
     (if name = ''BaseBlock'' then Inr BaseBlock
      else if name = ''Translatable'' then init_Translatable values
      else if name = ''RawDataBlock'' then
        and_then (required_str values ''name'') (\<lambda>n.
        Inr (RawDataBlock n (case map_of values ''data'' of None \<Rightarrow> PNone | Some v \<Rightarrow> v)))
      else if name = ''TextBlock'' then
        and_then (validate_text rp values) (\<lambda>text.
        and_then (optional_str values ''translated_text'') (\<lambda>tr.
        and_then (bool_field values ''strong'') (\<lambda>strong.
        and_then (bool_field values ''emphasis'') (\<lambda>emphasis.
        Inr (TextBlock text tr strong emphasis)))))
      else if name = ''ImageBlock'' then
        and_then (required_str values ''src'') (\<lambda>src.
        and_then (case map_of values ''alt'' of
                    None \<Rightarrow> Inr None
                  | Some (PStr a) \<Rightarrow> Inr (Some a)
                  | _ \<Rightarrow> Inl ValidationError) (\<lambda>alt.
        and_then (optional_str values ''title'') (\<lambda>title.
        Inr (ImageBlock src alt title))))
      else if name = ''HeadingBlock'' then
        and_then (required_str values ''text'') (\<lambda>text.
        and_then (optional_str values ''translated_text'') (\<lambda>tr.
        and_then (required_int values ''level'') (\<lambda>level.
        Inr (HeadingBlock text tr level))))
      else if name = ''SeparatorBlock'' then Inr SeparatorBlock
      else if name = ''CodeBlock'' then
        and_then (required_str values ''code'') (\<lambda>code.
        and_then (optional_str values ''language'') (\<lambda>language.
        Inr (CodeBlock code language)))
      else if name = ''HtmlBlock'' then
        and_then (required_str values ''code'') (\<lambda>code. Inr (HtmlBlock code))
      else if name = ''ListItemBlock'' then
        (case map_of values ''children'' of
           Some (PList ps) \<Rightarrow> and_then (translatable_children ps) (\<lambda>bs. Inr (ListItemBlock bs))
         | Some (PTuple ps) \<Rightarrow> and_then (translatable_children ps) (\<lambda>bs. Inr (ListItemBlock bs))
         | _ \<Rightarrow> Inl ValidationError)
      else Inl TypeError)"

subsection \<open>Decoding: \<open>BaseBlock.validate\<close> and the constructors\<close>

text \<open>
  \<^item> \<open>parse_child\<close> is the body of the loop of \<open>validate\<close> (lines 16 to 22): a dict with
    a \<open>block_type\<close> key has the key popped and looked up in \<open>globals()\<close>; an unhashable
    value raises \<open>TypeError\<close> in the membership test, a value that is not a key of
    \<open>globals()\<close> raises \<open>ValueError('Unknown Block Type: %s', block_type)\<close>, and the
    global found is called with the rest of the dict. Any other child is kept.
  \<^item> \<open>parse_children\<close> is the loop, \<open>validate\<close> the method: it reads \<open>children\<close>, returns
    the dict unchanged when that is missing or false, and otherwise stores the parsed
    list. Iterating over a string, a dict or an instance yields characters, keys or
    field pairs, none of them a dict, so the loop keeps every element; iterating over a
    boolean, an integer or a class raises \<open>TypeError\<close>.
  \<^item> \<open>construct rp name kvs\<close> is \<open>globals()[name](**kvs)\<close> for a class name.
  \<^item> The class attribute \<open>validate\<close> of \<open>BaseBlock\<close> and its subclasses is this root
    validator, so it is also what pydantic applies to each element of a field declared
    with element type \<open>BaseBlock\<close> or \<open>ListItemBlock\<close> (\<open>LinkBlock.text\<close>,
    \<open>ListBlock.children\<close>): an element that is a dict has its own \<open>children\<close> parsed and
    stays a dict, \<open>None\<close> is rejected before the validator runs (the element type is
    not optional), and any other element passes unchanged (\<open>validate_elements\<close>).
    Only \<open>children\<close> is ever decoded into instances.
  \<^item> \<open>validate\<close> changes no key but \<open>children\<close>, so \<open>construct\<close> reads \<open>text\<close> from the
    keyword dict; and a dict in the parsed list is the child itself (line 22), so
    \<open>validate_kept\<close> validates it as the child, walking both lists.
\<close>

function parse_child :: "(pyval \<Rightarrow> string) \<Rightarrow> pyval \<Rightarrow> py_error + pyval"
and parse_children :: "(pyval \<Rightarrow> string) \<Rightarrow> pyval list \<Rightarrow> py_error + pyval list"
and validate :: "(pyval \<Rightarrow> string) \<Rightarrow> (string \<times> pyval) list \<Rightarrow> py_error + (string \<times> pyval) list"
and validate_elements :: "(pyval \<Rightarrow> string) \<Rightarrow> pyval list \<Rightarrow> py_error + pyval list"
and validate_kept :: "(pyval \<Rightarrow> string) \<Rightarrow> pyval list \<Rightarrow> pyval list \<Rightarrow> py_error + pyval list"
and construct :: "(pyval \<Rightarrow> string) \<Rightarrow> string \<Rightarrow> (string \<times> pyval) list \<Rightarrow> py_error + block"
where
  "parse_child rp child =
     (case child of
        PDict kvs \<Rightarrow>
          (case map_of kvs ''block_type'' of
             None \<Rightarrow> Inr child
           | Some block_type \<Rightarrow>
               if \<not> hashable block_type then Inl TypeError
               else (case block_type of
                       PStr name \<Rightarrow>
                         if name \<notin> set module_globals
                         then Inl (ValueError ''Unknown Block Type: %s'')
                         else if name \<in> set block_classes
                         then (case construct rp name (del_key ''block_type'' kvs) of
                                 Inl e \<Rightarrow> Inl e
                               | Inr b \<Rightarrow> Inr (PObj b))
                         else Inl TypeError
                     | _ \<Rightarrow> Inl (ValueError ''Unknown Block Type: %s'')))
      | _ \<Rightarrow> Inr child)"
| "parse_children rp [] = Inr []"
| "parse_children rp (child # children) =
     (case parse_child rp child of
        Inl e \<Rightarrow> Inl e
      | Inr block \<Rightarrow>
          (case parse_children rp children of
             Inl e \<Rightarrow> Inl e
           | Inr parsed_children \<Rightarrow> Inr (block # parsed_children)))"
| "validate rp values =
     (case map_of values ''children'' of
        None \<Rightarrow> Inr values
      | Some children \<Rightarrow>
          if \<not> truthy children then Inr values
          else (case children of
                  PList cs \<Rightarrow>
                    (case parse_children rp cs of
                       Inl e \<Rightarrow> Inl e
                     | Inr parsed_children \<Rightarrow> Inr (set_key ''children'' (PList parsed_children) values))
                | PTuple cs \<Rightarrow>
                    (case parse_children rp cs of
                       Inl e \<Rightarrow> Inl e
                     | Inr parsed_children \<Rightarrow> Inr (set_key ''children'' (PList parsed_children) values))
                | PStr s \<Rightarrow>
                    Inr (set_key ''children'' (PList (map (\<lambda>c. PStr [c]) s)) values)
                | PDict d \<Rightarrow>
                    Inr (set_key ''children'' (PList (map (\<lambda>kv. PStr (fst kv)) d)) values)
                | PObj b \<Rightarrow>
                    Inr (set_key ''children''
                           (PList (map (\<lambda>kv. PTuple [PStr (fst kv), snd kv]) (instance_fields b))) values)
                | _ \<Rightarrow> Inl TypeError))"
| "validate_elements rp [] = Inr []"
| "validate_elements rp (x # xs) =
     (case (case x of
              PDict d \<Rightarrow> (case validate rp d of Inl e \<Rightarrow> Inl (wrap e) | Inr d' \<Rightarrow> Inr (PDict d'))
            | PNone \<Rightarrow> Inl ValidationError
            | _ \<Rightarrow> Inr x) of
        Inl e \<Rightarrow> Inl e
      | Inr x' \<Rightarrow>
          (case validate_elements rp xs of Inl e \<Rightarrow> Inl e | Inr xs' \<Rightarrow> Inr (x' # xs')))"
| "validate_kept rp [] ps = Inr ps"
| "validate_kept rp (c # cs) [] = Inr []"
| "validate_kept rp (c # cs) (p # ps) =
     (case (case p of
              PDict _ \<Rightarrow>
                (case c of
                   PDict d \<Rightarrow> (case validate rp d of Inl e \<Rightarrow> Inl (wrap e) | Inr d' \<Rightarrow> Inr (PDict d'))
                 | _ \<Rightarrow> Inr p)
            | PNone \<Rightarrow> Inl ValidationError
            | _ \<Rightarrow> Inr p) of
        Inl e \<Rightarrow> Inl e
      | Inr p' \<Rightarrow>
          (case validate_kept rp cs ps of Inl e \<Rightarrow> Inl e | Inr ps' \<Rightarrow> Inr (p' # ps')))"
| "construct rp name kvs =
     (if name = ''Translatable'' then init_fields rp name kvs
      else
        (case validate rp kvs of
           Inl e \<Rightarrow> Inl (wrap e)
         | Inr values \<Rightarrow>
             if name = ''LinkBlock'' then
               (case required_str values ''link'' of
                  Inl e \<Rightarrow> Inl e
                | Inr link \<Rightarrow>
                    (case optional_str values ''title'' of
                       Inl e \<Rightarrow> Inl e
                     | Inr title \<Rightarrow>
                         (case map_of kvs ''text'' of
                            None \<Rightarrow> Inr (LinkBlock link title None)
                          | Some PNone \<Rightarrow> Inr (LinkBlock link title None)
                          | Some (PList xs) \<Rightarrow>
                              (case validate_elements rp xs of
                                 Inl e \<Rightarrow> Inl e
                               | Inr xs' \<Rightarrow> Inr (LinkBlock link title (Some xs')))
                          | Some (PTuple xs) \<Rightarrow>
                              (case validate_elements rp xs of
                                 Inl e \<Rightarrow> Inl e
                               | Inr xs' \<Rightarrow> Inr (LinkBlock link title (Some xs')))
                          | _ \<Rightarrow> Inl ValidationError)))
             else if name = ''ListBlock'' then
               (case (case map_of values ''children'' of
                        Some (PList ps) \<Rightarrow>
                          (case map_of kvs ''children'' of
                             Some (PList cs) \<Rightarrow> validate_kept rp cs ps
                           | Some (PTuple cs) \<Rightarrow> validate_kept rp cs ps
                           | _ \<Rightarrow> Inr ps)
                      | Some (PTuple ps) \<Rightarrow> Inr ps
                      | _ \<Rightarrow> Inl ValidationError) of
                  Inl e \<Rightarrow> Inl e
                | Inr children \<Rightarrow>
                    (case bool_field values ''ordered'' of
                       Inl e \<Rightarrow> Inl e
                     | Inr ordered \<Rightarrow> Inr (ListBlock children ordered)))
             else init_fields rp name values))"
  by pat_completeness auto
termination
proof -
  have lookup: "size v < size_list (size_prod (\<lambda>x. 0) size) kvs"
    if "map_of kvs k = Some v" for kvs :: "(string \<times> pyval) list" and k v
    using that by (induction kvs) (auto split: if_splits)
  have del: "size_list (size_prod (\<lambda>x. 0) size) (del_key k kvs)
               \<le> size_list (size_prod (\<lambda>x. 0) size) kvs"
    for kvs :: "(string \<times> pyval) list" and k
    by (induction kvs) (auto simp: del_key_def)
  show ?thesis
  proof (relation "measure (\<lambda>x. case x of
    Inl (Inl (rp, child)) \<Rightarrow> 3 * size child
  | Inl (Inr (Inl (rp, children))) \<Rightarrow> 3 * size_list size children + 1
  | Inl (Inr (Inr (rp, values))) \<Rightarrow> 3 * size_list (size_prod (\<lambda>x. 0) size) values + 1
  | Inr (Inl (rp, xs)) \<Rightarrow> 3 * size_list size xs + 1
  | Inr (Inr (Inl (rp, cs, ps))) \<Rightarrow> 3 * size_list size cs + 1
  | Inr (Inr (Inr (rp, name, kvs))) \<Rightarrow> 3 * size_list (size_prod (\<lambda>x. 0) size) kvs + 2)",
  goal_cases)
    case 1
    show ?case by simp
  next
    case (2 rp child kvs block_type name)
    then show ?case using del [of "''block_type''" kvs] by simp
  next
    case 3 then show ?case by simp
  next
    case 4 then show ?case by simp
  next
    case (5 rp vals children cs)
    then show ?case using lookup [of vals "''children''" children] by simp
  next
    case (6 rp vals children cs)
    then show ?case using lookup [of vals "''children''" children] by simp
  next
    case 7 then show ?case by simp
  next
    case 8 then show ?case by simp
  next
    case 9 then show ?case by simp
  next
    case 10 then show ?case by simp
  next
    case 11 then show ?case by simp
  next
    case (12 rp name kvs vals link title v xs)
    then show ?case using lookup [of kvs "''text''" v] by simp
  next
    case (13 rp name kvs vals link title v xs)
    then show ?case using lookup [of kvs "''text''" v] by simp
  next
    case (14 rp name kvs vals v ps c cs)
    then show ?case using lookup [of kvs "''children''" c] by simp
  next
    case (15 rp name kvs vals v ps c cs)
    then show ?case using lookup [of kvs "''children''" c] by simp
  qed
qed


subsection \<open>Trees whose nested nodes all sit under \<open>children\<close>\<close>

text \<open>
  \<open>codec_safe b\<close>: \<open>b\<close> is an instance of \<open>BaseBlock\<close> or of a subclass, a LinkBlock has
  no text nodes, the data of a RawDataBlock holds no instance, the \<open>alt\<close> of an ImageBlock
  was given, the children of a ListItemBlock derive from \<open>Translatable\<close> and the children
  of a ListBlock are codec-safe instances.
\<close>

fun codec_safe :: "block \<Rightarrow> bool" where
  "codec_safe BaseBlock = True"
| "codec_safe (Translatable text tr) = False"
| "codec_safe (RawDataBlock name data) = (encode_val data = data)"
| "codec_safe (TextBlock text tr strong emphasis) = True"
| "codec_safe (LinkBlock link title text) = (text = None \<or> text = Some [])"
| "codec_safe (ImageBlock src alt title) = (alt \<noteq> None)"
| "codec_safe (HeadingBlock text tr level) = True"
| "codec_safe SeparatorBlock = True"
| "codec_safe (CodeBlock code language) = True"
| "codec_safe (HtmlBlock code) = True"
| "codec_safe (ListItemBlock children) = list_all inherits_Translatable children"
| "codec_safe (ListBlock children ordered) =
     list_all (\<lambda>v. case v of PObj b \<Rightarrow> codec_safe b | _ \<Rightarrow> False) children"

section \<open>The application: \<open>md_translate/application.py\<close>\<close>

subsection \<open>Paths\<close>

text \<open>
  A \<open>pathlib\<close> path on a POSIX system: whether it is anchored at the root, and its
  components. \<open>parts\<close> puts the root first, \<open>path_name\<close> (the attribute \<open>name\<close>) is the last component (empty for the
  root and for the empty path), \<open>Path_of\<close> is \<open>Path(*segments)\<close> for segments taken
  from \<open>parts\<close>, and \<open>relative_to\<close> raises \<open>ValueError\<close> unless the other path has the
  same anchor and is a prefix.
\<close>

record path =
  absolute :: bool
  names :: "string list"

definition parts :: "path \<Rightarrow> string list" where
  "parts p = (if absolute p then [''/''] else []) @ names p"

definition path_name :: "path \<Rightarrow> string" where
  "path_name p = (if names p = [] then [] else last (names p))"

definition Path_of :: "string list \<Rightarrow> path" where
  "Path_of segments =
     (case segments of
        [] \<Rightarrow> \<lparr>absolute = False, names = []\<rparr>
      | s # rest \<Rightarrow>
          if s = ''/'' then \<lparr>absolute = True, names = rest\<rparr>
          else \<lparr>absolute = False, names = segments\<rparr>)"

datatype app_error = ClickException path | IndexError | PathValueError

definition relative_to :: "path \<Rightarrow> path \<Rightarrow> app_error + path" where
  "relative_to p other =
     (if absolute p = absolute other \<and> prefix (names other) (names p)
      then Inr \<lparr>absolute = False, names = drop (length (names other)) (names p)\<rparr>
      else Inl PathValueError)"

text \<open>\<open>sub in s\<close> on strings.\<close>

fun contains :: "string \<Rightarrow> string \<Rightarrow> bool" where
  "contains sub [] = (sub = [])"
| "contains sub (c # s) = (prefix sub (c # s) \<or> contains sub s)"

subsection \<open>\<open>_get_files_to_process\<close>\<close>

text \<open>
  The file system is a parameter: which paths exist, which are files, and what
  \<open>glob('**/*.md')\<close> yields under a directory. \<open>settings.path\<close> is one path or a list of
  paths. The first loop (\<open>collect\<close>) raises \<open>ClickException\<close> at the first path that
  does not exist. The filter keeps the files whose name does not contain
  \<open>_translated\<close>. The log line is computed before the return: \<open>source_files[0]\<close> raises
  \<open>IndexError\<close> when nothing is left, and \<open>relative_to\<close> can raise \<open>ValueError\<close>.
\<close>

record file_system =
  path_exists :: "path \<Rightarrow> bool"
  is_file :: "path \<Rightarrow> bool"
  glob_md :: "path \<Rightarrow> path list"

datatype path_setting = OnePath path | PathList "path list"

fun collect :: "file_system \<Rightarrow> path list \<Rightarrow> app_error + path list" where
  "collect fs [] = Inr []"
| "collect fs (path_to_process # rest) =
     (if \<not> path_exists fs path_to_process then Inl (ClickException path_to_process)
      else (case collect fs rest of
              Inl e \<Rightarrow> Inl e
            | Inr found \<Rightarrow>
                Inr ((if is_file fs path_to_process then [path_to_process]
                      else glob_md fs path_to_process) @ found)))"

fun relative_all :: "path \<Rightarrow> path list \<Rightarrow> app_error + path list" where
  "relative_all common [] = Inr []"
| "relative_all common (f # fs) =
     (case relative_to f common of
        Inl e \<Rightarrow> Inl e
      | Inr r \<Rightarrow> (case relative_all common fs of Inl e \<Rightarrow> Inl e | Inr rs \<Rightarrow> Inr (r # rs)))"

definition get_files_to_process :: "file_system \<Rightarrow> path_setting \<Rightarrow> app_error + path list" where
  "get_files_to_process fs setting =
     (case collect fs (case setting of OnePath p \<Rightarrow> [p] | PathList ps \<Rightarrow> ps) of
        Inl e \<Rightarrow> Inl e
      | Inr files_to_process \<Rightarrow>
          (let source_files =
                 filter (\<lambda>file_to_process. \<not> contains ''_translated'' (path_name file_to_process))
                   files_to_process
           in case source_files of
                [] \<Rightarrow> Inl IndexError
              | first # _ \<Rightarrow>
                  (let common_path_part =
                         Path_of (filter (\<lambda>part. \<forall>file \<in> set source_files. part \<in> set (parts file))
                                    (parts first))
                   in case relative_all common_path_part source_files of
                        Inl e \<Rightarrow> Inl e
                      | Inr _ \<Rightarrow> Inr source_files)))"

subsection \<open>\<open>process_file\<close>\<close>

text \<open>
  \<open>MarkdownDocument\<close> and the translation provider are outside this file; their
  operations are parameters. Each may raise: an exception is either an instance of
  \<open>Exception\<close>, which \<open>except Exception\<close> catches, or of \<open>BaseException\<close> only.
  \<open>translate\<close> mutates the document: it yields the document as it leaves it and the
  exception if it raised. \<open>provider_exit\<close> is \<open>__exit__\<close>: it receives the exception that
  leaves the \<open>with\<close> body, if any, and says whether to suppress it, or raises itself.

  \<open>process_file\<close> returns the trace of what it logged, wrote and echoed, in order, and
  whether it returned or an exception left it.
\<close>

datatype raised = ExceptionInstance string | BaseExceptionOnly string

datatype 'doc event =
    Processing path
  | ErrorProcessing path
  | ErrorLogged raised
  | Skipping string
  | ErrorTranslating string
  | ExceptionLogged raised
  | WriteCalled 'doc bool bool
  | Echoed string

datatype outcome = Returned | Raised raised

record settings =
  ignore_cache :: bool
  new_file :: bool
  overwrite :: bool
  save_temp_on_complete :: bool

record ('doc, 'prov) collaborators =
  from_file :: "path \<Rightarrow> bool \<Rightarrow> raised + 'doc"
  doc_should_be_translated :: "'doc \<Rightarrow> bool \<Rightarrow> bool \<Rightarrow> raised + bool"
  provider_enter :: "raised + 'prov"
  translate :: "'doc \<Rightarrow> 'prov \<Rightarrow> 'doc \<times> raised option"
  provider_exit :: "raised option \<Rightarrow> raised + bool"
  doc_write :: "'doc \<Rightarrow> bool \<Rightarrow> bool \<Rightarrow> raised option"

fun is_Exception :: "raised \<Rightarrow> bool" where
  "is_Exception (ExceptionInstance msg) = True"
| "is_Exception (BaseExceptionOnly msg) = False"

fun is_write :: "'doc event \<Rightarrow> bool" where
  "is_write (WriteCalled doc nf st) = True"
| "is_write ev = False"

definition write_step ::
  "('doc, 'prov) collaborators \<Rightarrow> settings \<Rightarrow> path \<Rightarrow> 'doc event list \<Rightarrow> 'doc
     \<Rightarrow> 'doc event list \<times> outcome" where
  "write_step c s file_to_process trace document =
     (case doc_write c document (new_file s) (save_temp_on_complete s) of
        Some e \<Rightarrow> (trace @ [WriteCalled document (new_file s) (save_temp_on_complete s)], Raised e)
      | None \<Rightarrow>
          (trace @ [WriteCalled document (new_file s) (save_temp_on_complete s),
                    Echoed (path_name file_to_process)], Returned))"

definition process_file ::
  "('doc, 'prov) collaborators \<Rightarrow> settings \<Rightarrow> path \<Rightarrow> 'doc event list \<times> outcome" where
  "process_file c s file_to_process =
     (case from_file c file_to_process (ignore_cache s) of
        Inl e \<Rightarrow>
          if is_Exception e
          then ([Processing file_to_process, ErrorProcessing file_to_process, ErrorLogged e],
                Returned)
          else ([Processing file_to_process], Raised e)
      | Inr document \<Rightarrow>
          (case doc_should_be_translated c document (new_file s) (overwrite s) of
             Inl e \<Rightarrow> ([Processing file_to_process], Raised e)
           | Inr False \<Rightarrow>
               ([Processing file_to_process, Skipping (path_name file_to_process)], Returned)
           | Inr True \<Rightarrow>
               (case provider_enter c of
                  Inl e \<Rightarrow> ([Processing file_to_process], Raised e)
                | Inr provider \<Rightarrow>
                    (case translate c document provider of
                       (document', Some e) \<Rightarrow>
                         if is_Exception e
                         then (case provider_exit c None of
                                 Inl e' \<Rightarrow>
                                   ([Processing file_to_process,
                                     ErrorTranslating (path_name file_to_process),
                                     ExceptionLogged e], Raised e')
                               | Inr _ \<Rightarrow>
                                   ([Processing file_to_process,
                                     ErrorTranslating (path_name file_to_process),
                                     ExceptionLogged e], Returned))
                         else (case provider_exit c (Some e) of
                                 Inl e' \<Rightarrow> ([Processing file_to_process], Raised e')
                               | Inr suppress \<Rightarrow>
                                   if suppress
                                   then write_step c s file_to_process
                                          [Processing file_to_process] document'
                                   else ([Processing file_to_process], Raised e))
                     | (document', None) \<Rightarrow>
                         (case provider_exit c None of
                            Inl e' \<Rightarrow> ([Processing file_to_process], Raised e')
                          | Inr _ \<Rightarrow>
                              write_step c s file_to_process
                                [Processing file_to_process] document')))))"

section \<open>What the specification's words say, for comparison\<close>

text \<open>
  The kinds that the data-model table of the specification marks as translatable, among
  the classes of this module: TextBlock, ImageBlock, LinkBlock and HeadingBlock.
\<close>

fun spec_table_translatable :: "block \<Rightarrow> bool" where
  "spec_table_translatable (TextBlock text tr strong emphasis) = True"
| "spec_table_translatable (ImageBlock src alt title) = True"
| "spec_table_translatable (LinkBlock link title text) = True"
| "spec_table_translatable (HeadingBlock text tr level) = True"
| "spec_table_translatable b = False"

text \<open>
  The item prefix of the specification's renderer: \<open>N.\<close> counting from the list's start
  value, or \<open>-\<close>.
\<close>

definition spec_list_prefix :: "bool \<Rightarrow> nat \<Rightarrow> nat \<Rightarrow> string" where
  "spec_list_prefix ordered start k = (if ordered then str_nat (start + k) @ ''.'' else ''-'')"

text \<open>
  The specification's link with a title: the label, the URL and the title in double
  quotes.
\<close>

definition spec_link_with_title :: "string \<Rightarrow> string \<Rightarrow> string \<Rightarrow> string" where
  "spec_link_with_title label link title =
     ''['' @ label @ '']('' @ link @ '' '' @ [CHR 0x22] @ title @ [CHR 0x22] @ '')''"

text \<open>
  The concrete block kinds of the module: the subclasses of \<open>BaseBlock\<close>, each with its
  own \<open>__str__\<close>. \<open>BaseBlock\<close> is the abstract base and \<open>Translatable\<close> the mixin.
\<close>

definition concrete_block_kinds :: "string list" where
  "concrete_block_kinds =
     [''RawDataBlock'', ''TextBlock'', ''LinkBlock'', ''ImageBlock'', ''HeadingBlock'',
      ''SeparatorBlock'', ''CodeBlock'', ''HtmlBlock'', ''ListItemBlock'', ''ListBlock'']"

section \<open>Concrete inputs for the closed examples\<close>

text \<open>
  A stand-in for the builtin \<open>repr\<close>; none of the examples prints a container.
\<close>

definition repr0 :: "pyval \<Rightarrow> string" where
  "repr0 v = ''<repr>''"

text \<open>
  A file system with one directory \<open>docs\<close> that holds a source file and the output of an
  earlier run.
\<close>

definition sample_fs :: file_system where
  "sample_fs =
     \<lparr>path_exists = (\<lambda>p. True),
      is_file = (\<lambda>p. names p \<noteq> [''docs'']),
      glob_md = (\<lambda>p. [\<lparr>absolute = False, names = [''docs'', ''intro.md'']\<rparr>,
                       \<lparr>absolute = False, names = [''docs'', ''intro_translated.md'']\<rparr>])\<rparr>"

definition sample_settings :: settings where
  "sample_settings =
     \<lparr>ignore_cache = False, new_file = True, overwrite = False, save_temp_on_complete = False\<rparr>"

text \<open>
  Collaborators whose document parses and is due for translation and whose translation raises
  an \<open>Exception\<close>; in \<open>failing_release\<close> the provider's \<open>__exit__\<close> raises as well.
\<close>

definition failing_translation :: "(string, unit) collaborators" where
  "failing_translation =
     \<lparr>from_file = (\<lambda>p ic. Inr ''parsed''),
      doc_should_be_translated = (\<lambda>d nf ow. Inr True),
      provider_enter = Inr (),
      translate = (\<lambda>d p. (''partly translated'', Some (ExceptionInstance ''timeout''))),
      provider_exit = (\<lambda>e. Inr False),
      doc_write = (\<lambda>d nf st. None)\<rparr>"

definition failing_release :: "(string, unit) collaborators" where
  "failing_release =
     \<lparr>from_file = (\<lambda>p ic. Inr ''parsed''),
      doc_should_be_translated = (\<lambda>d nf ow. Inr True),
      provider_enter = Inr (),
      translate = (\<lambda>d p. (''partly translated'', Some (ExceptionInstance ''timeout''))),
      provider_exit = (\<lambda>e. Inl (ExceptionInstance ''driver quit failed'')),
      doc_write = (\<lambda>d nf st. None)\<rparr>"

section \<open>Rendering: results\<close>

lemma py_str_all_list_all2:
  "py_str_all rp ns = Inr strs \<longleftrightarrow> list_all2 (\<lambda>n s. py_str rp n = Inr s) ns strs"
proof (induction ns arbitrary: strs)
  case Nil
  then show ?case by auto
next
  case (Cons n ns)
  show ?case
  proof (cases strs)
    case Nil
    then show ?thesis by (simp split: sum.splits)
  next
    case (Cons s ss)
    with Cons.IH [of ss] show ?thesis by (auto split: sum.splits)
  qed
qed

lemma list_lines_map:
  "list_lines ordered c strs =
     map (\<lambda>k. list_prefix ordered (c + k) @ '' '' @ strs ! k) [0..<length strs]"
proof (induction strs arbitrary: c)
  case Nil
  then show ?case by simp
next
  case (Cons s strs)
  have "[0..<length (s # strs)] = 0 # map Suc [0..<length strs]"
    by (simp add: upt_conv_Cons map_Suc_upt del: upt_Suc)
  then show ?case using Cons.IH [of "Suc c"] by (simp add: comp_def)
qed

text \<open>
  C1. A Translatable leaf whose translated text is set should render as the original, a
  blank line and the translation. \<open>TextBlock.__str__\<close> never reads \<open>translated_text\<close>, and
  \<open>Translatable.__str__\<close> builds the joined text only under the inverted test and drops
  it: the TextBlock with text "Hola" and translation "Hello" renders as "Hola" alone, and
  so do a heading and a Translatable instance (the heading after its marker).
\<close>

theorem C1_translation_not_rendered:
  "render rp (TextBlock ''Hola'' (Some ''Hello'') False False) = Inr ''Hola''
   \<and> render rp (Translatable ''Hola'' (Some ''Hello'')) = Inr ''Hola''
   \<and> render rp (HeadingBlock ''Hola'' (Some ''Hello'') 1) = Inr ''# Hola''
   \<and> ''Hola'' \<noteq> ''Hola'' @ newline @ newline @ ''Hello''"
  by (simp add: newline_def)

text \<open>
  C2. Rendering should never raise. A LinkBlock whose optional \<open>text\<close> is \<open>None\<close> raises
  \<open>TypeError\<close> (\<open>map(str, None)\<close>), and so does a Translatable instance whose
  \<open>translated_text\<close> is \<open>None\<close> (\<open>join\<close> over a list holding \<open>None\<close>), also as the child
  of a list item.
\<close>

theorem C2_render_raises:
  "render rp (LinkBlock ''https://example.org'' None None) = Inl TypeError
   \<and> render rp (Translatable ''Hola'' None) = Inl TypeError
   \<and> render rp (ListItemBlock [Translatable ''Hola'' None]) = Inl TypeError"
  by simp

text \<open>
  C9. A TextBlock with both flags set renders as \<open>**text**\<close>: the strong flag is tested
  first and the emphasis flag is not read. Whatever the flags, the result is never the
  text between two runs of three asterisks.
\<close>

theorem C9_strong_wins:
  "render rp (TextBlock text tr True True) = Inr (''**'' @ text @ ''**'')
   \<and> render rp (TextBlock text tr strong emphasis) \<noteq> Inr (''***'' @ text @ ''***'')"
proof -
  have "length (''***'' @ text @ ''***'') = length text + 6" by simp
  moreover have "\<exists>s. render rp (TextBlock text tr strong emphasis) = Inr s \<and> length s < length text + 6"
    by simp
  ultimately show ?thesis by auto
qed

text \<open>
  C4 as stated fails: an unordered list marks its items with \<open>*\<close>, not \<open>-\<close>, and an
  ordered list whose start value would be 1 numbers its first item 0.
\<close>

theorem C4_list_prefix_counterexample:
  "render repr0 (ListBlock [PObj (ListItemBlock [TextBlock ''a'' None False False])] False)
     \<noteq> Inr (spec_list_prefix False 1 0 @ '' a'')
   \<and> render repr0 (ListBlock [PObj (ListItemBlock [TextBlock ''a'' None False False])] True)
     \<noteq> Inr (spec_list_prefix True 1 0 @ '' a'')"
  by (simp add: spec_list_prefix_def list_prefix_def str_nat.simps digit_char_def)

text \<open>
  C4, amended. When every item of a ListBlock renders, the list renders as one line per
  item, in order, joined by newlines: item \<open>k\<close> (counted from 0; the class has no start
  field) is prefixed by \<open>k.\<close> when the list is ordered and by \<open>*\<close> when it is not, then a
  space.
\<close>

theorem C4_list_render:
  assumes "length strs = length children"
    and "\<forall>k<length children. py_str rp (children ! k) = Inr (strs ! k)"
  shows "render rp (ListBlock children ordered) =
           Inr (join newline
                  (map (\<lambda>k. (if ordered then str_nat k @ ''.'' else ''*'') @ '' '' @ strs ! k)
                     [0..<length children]))"
proof -
  from assms have "list_all2 (\<lambda>n s. py_str rp n = Inr s) children strs"
    by (simp add: list_all2_conv_all_nth)
  then have "py_str_all rp children = Inr strs"
    by (simp add: py_str_all_list_all2)
  then show ?thesis
    using assms(1) by (simp add: list_lines_map list_prefix_def)
qed

theorem C4_list_render_witness:
  "render repr0
     (ListBlock [PObj (ListItemBlock [TextBlock ''a'' None False False]),
                 PObj (ListItemBlock [TextBlock ''b'' None True False])] True)
   = Inr (''0. a'' @ newline @ ''1. **b**'')"
proof -
  let ?children = "[PObj (ListItemBlock [TextBlock ''a'' None False False]),
                    PObj (ListItemBlock [TextBlock ''b'' None True False])]"
  let ?strs = "[''a'', ''**b**'']"
  have len: "length ?strs = length ?children" by simp
  have items: "\<forall>k<length ?children. py_str repr0 (?children ! k) = Inr (?strs ! k)"
    by (simp add: less_Suc_eq)
  have upt: "[0..<length ?children] = [0, Suc 0]" by (simp add: upt_rec)
  show ?thesis
    using C4_list_render [OF len items, of True]
    by (simp only: upt) (simp add: str_nat.simps digit_char_def list_prefix_def)
qed

text \<open>
  C5 as stated fails: an ImageBlock is translatable in the data-model table and carries
  no translation, yet \<open>should_be_translated\<close> returns \<open>False\<close> for it.
\<close>

theorem C5_image_counterexample:
  "should_be_translated (ImageBlock ''cat.png'' (Some ''a cat'') None)
     \<noteq> (spec_table_translatable (ImageBlock ''cat.png'' (Some ''a cat'') None)
         \<and> translated_text (ImageBlock ''cat.png'' (Some ''a cat'') None) = None)"
  by simp

text \<open>
  C5, amended. \<open>should_be_translated\<close> returns a boolean for every node; it is \<open>True\<close>
  exactly when the node's class inherits \<open>Translatable\<close> (TextBlock, HeadingBlock,
  Translatable itself) and its \<open>translated_text\<close> is \<open>None\<close>, and \<open>False\<close> for every other
  class, ImageBlock and LinkBlock among them.
\<close>

theorem C5_should_be_translated:
  "should_be_translated b = (inherits_Translatable b \<and> translated_text b = None)"
  by (cases b) simp_all

text \<open>
  C8 as stated fails: a LinkBlock with a title and a non-empty text renders without the
  title.
\<close>

theorem C8_title_counterexample:
  "render repr0 (LinkBlock ''u'' (Some ''T'') (Some [PObj (TextBlock ''a'' None False False)]))
     = Inr ''[a](u)''
   \<and> ''[a](u)'' \<noteq> spec_link_with_title ''a'' ''u'' ''T''"
  by (simp add: spec_link_with_title_def)

text \<open>
  C8, amended. When the text of a LinkBlock is a list whose nodes all render, the link
  renders as \<open>[label](url)\<close>: the label is the renderings joined by single spaces, or,
  when that is empty, the title (\<open>None\<close> printed for a null title). The title is never
  emitted next to the URL.
\<close>

theorem C8_link_render:
  assumes "length strs = length ns"
    and "\<forall>k<length ns. py_str rp (ns ! k) = Inr (strs ! k)"
  shows "render rp (LinkBlock link title (Some ns)) =
           Inr (''['' @ (if join '' '' strs \<noteq> [] then join '' '' strs
                         else (case title of None \<Rightarrow> ''None'' | Some t \<Rightarrow> t))
                @ '']('' @ link @ '')'')"
proof -
  from assms have "list_all2 (\<lambda>n s. py_str rp n = Inr s) ns strs"
    by (simp add: list_all2_conv_all_nth)
  then have "py_str_all rp ns = Inr strs"
    by (simp add: py_str_all_list_all2)
  then show ?thesis by simp
qed

theorem C8_link_render_witness:
  "render repr0
     (LinkBlock ''https://duckduckgo.com'' None
        (Some [PObj (TextBlock ''Duck'' None False False), PObj (TextBlock ''Go'' None False True)]))
   = Inr ''[Duck *Go*](https://duckduckgo.com)''"
proof -
  let ?ns = "[PObj (TextBlock ''Duck'' None False False), PObj (TextBlock ''Go'' None False True)]"
  let ?strs = "[''Duck'', ''*Go*'']"
  have len: "length ?strs = length ?ns" by simp
  have items: "\<forall>k<length ?ns. py_str repr0 (?ns ! k) = Inr (?strs ! k)"
    by (simp add: less_Suc_eq)
  show ?thesis
    using C8_link_render [OF len items, of "''https://duckduckgo.com''" None] by simp
qed

section \<open>The codec: results\<close>

lemmas codec_defs = tagged_def module_globals_def other_globals_def block_classes_def del_key_def
  set_key_def required_str_def optional_str_def bool_field_def required_int_def init_fields_def
  init_Translatable_def and_then_def validate_text_def wrap_def

lemma opt_str_cases [simp]:
  "(case opt_str x of PNone \<Rightarrow> a | PStr s \<Rightarrow> f s | _ \<Rightarrow> b) = (case x of None \<Rightarrow> a | Some s \<Rightarrow> f s)"
  by (cases x) simp_all

lemma item_children_roundtrip:
  "list_all inherits_Translatable bs \<Longrightarrow>
   \<exists>ps. parse_children rp (map encode bs) = Inr ps \<and> translatable_children ps = Inr bs
        \<and> (bs = [] \<longleftrightarrow> ps = [])"
proof (induction bs)
  case Nil
  then show ?case by simp
next
  case (Cons b bs)
  then obtain ps where ps: "parse_children rp (map encode bs) = Inr ps"
    "translatable_children ps = Inr bs" by auto
  from Cons.prems have "inherits_Translatable b" by simp
  then have "\<exists>p. parse_child rp (encode b) = Inr p
                \<and> (case p of PObj b' \<Rightarrow> if inherits_Translatable b' then Inr b' else Inl ValidationError
                     | PDict d \<Rightarrow> init_Translatable d | _ \<Rightarrow> Inl ValidationError) = Inr b"
    by (cases b) (simp_all add: codec_defs split: option.splits)
  then obtain p where p: "parse_child rp (encode b) = Inr p"
    "(case p of PObj b' \<Rightarrow> if inherits_Translatable b' then Inr b' else Inl ValidationError
      | PDict d \<Rightarrow> init_Translatable d | _ \<Rightarrow> Inl ValidationError) = Inr b" by blast
  show ?case
    using ps p by (simp add: and_then_def del: parse_child.simps)
qed

lemma validate_kept_objects:
  "list_all (\<lambda>v. case v of PObj b \<Rightarrow> True | _ \<Rightarrow> False) ps \<Longrightarrow> length cs = length ps \<Longrightarrow>
   validate_kept rp cs ps = Inr ps"
proof (induction cs arbitrary: ps)
  case Nil
  then show ?case by simp
next
  case (Cons c cs)
  then obtain p ps' where "ps = p # ps'" by (cases ps) auto
  with Cons show ?case by (auto split: pyval.splits simp del: validate.simps)
qed

text \<open>
  Where every nested node sits under \<open>children\<close>, decoding the encoding gives the tree
  back, for any depth of nesting: the loss shown for C3 is confined to the slots that
  \<open>validate\<close> does not decode.
\<close>

theorem codec_roundtrip_children_only:
  "codec_safe b \<Longrightarrow> parse_child rp (encode b) = Inr (PObj b)"
proof (induction b rule: codec_safe.induct)
  case (11 children)
  then obtain ps where "parse_children rp (map encode children) = Inr ps"
    "translatable_children ps = Inr children" "children = [] \<longleftrightarrow> ps = []"
    using item_children_roundtrip [of children rp] by auto
  then show ?case
    by (subst parse_child.simps) (auto simp add: codec_defs simp del: parse_child.simps)
next
  case (12 children ordered)
  have "parse_children rp (map encode_val children) = Inr children"
    using 12 
  proof (induction children)
    case Nil
    then show ?case by simp
  next
    case (Cons v vs)
    then show ?case by (cases v) (auto simp del: parse_child.simps)
  qed
  moreover have "validate_kept rp (map encode_val children) children = Inr children"
    using 12 by (intro validate_kept_objects) (auto simp: list_all_iff split: pyval.splits)
  ultimately show ?case
    by (subst parse_child.simps) (auto simp add: codec_defs simp del: parse_child.simps)
qed (auto simp add: codec_defs split: option.splits)

lemma codec_roundtrip_nested_list:
  "parse_child repr0
     (encode (ListBlock [PObj (ListItemBlock [TextBlock ''a'' None True False,
                                              HeadingBlock ''h'' (Some ''t'') 2])] True))
   = Inr (PObj (ListBlock [PObj (ListItemBlock [TextBlock ''a'' None True False,
                                                HeadingBlock ''h'' (Some ''t'') 2])] True))"
  by (rule codec_roundtrip_children_only) simp

text \<open>
  C3. Decoding the encoding of a tree should give the tree back. \<open>validate\<close> decodes the
  entries of \<open>children\<close> only, and a LinkBlock keeps its nested nodes under \<open>text\<close>: the
  encoded TextBlock inside the link comes back as the dict it was encoded to, not as a
  TextBlock.
\<close>

theorem C3_link_text_not_decoded:
  "parse_child rp (encode (LinkBlock ''u'' None (Some [PObj (TextBlock ''a'' None False False)])))
     = Inr (PObj (LinkBlock ''u'' None (Some [encode (TextBlock ''a'' None False False)])))
   \<and> parse_child rp (encode (LinkBlock ''u'' None (Some [PObj (TextBlock ''a'' None False False)])))
     \<noteq> Inr (PObj (LinkBlock ''u'' None (Some [PObj (TextBlock ''a'' None False False)])))"
  by (simp add: tagged_def module_globals_def other_globals_def block_classes_def del_key_def
        required_str_def optional_str_def)

text \<open>
  A \<open>block_type\<close> that can be hashed and is not bound in the module namespace is
  rejected: decoding the child raises \<open>ValueError\<close> (Unknown Block Type) and constructs
  nothing, and the constructor of a parent that holds the child under \<open>children\<close> fails
  with pydantic's \<open>ValidationError\<close>.
\<close>

lemma unknown_block_type_rejected:
  assumes "map_of kvs ''block_type'' = Some block_type"
    and "hashable block_type"
    and "block_type \<notin> PStr ` set module_globals"
    and "cls \<noteq> ''Translatable''"
  shows "parse_child rp (PDict kvs) = Inl (ValueError ''Unknown Block Type: %s'')
         \<and> construct rp cls ((''children'', PList (PDict kvs # siblings)) # others)
             = Inl ValidationError"
proof -
  have 1: "parse_child rp (PDict kvs) = Inl (ValueError ''Unknown Block Type: %s'')"
    using assms(1-3) by (cases block_type) auto
  have "construct rp cls ((''children'', PList (PDict kvs # siblings)) # others) = Inl ValidationError"
    using assms(4) 1 by (simp add: wrap_def del: parse_child.simps)
  with 1 show ?thesis by simp
qed

lemma unknown_block_type_rejected_example:
  "parse_child repr0 (PDict [(''block_type'', PStr ''Paragraph''), (''children'', PList [])])
     = Inl (ValueError ''Unknown Block Type: %s'')
   \<and> construct repr0 ''ListBlock''
        [(''children'', PList [PDict [(''block_type'', PStr ''Paragraph''), (''children'', PList [])]]),
         (''ordered'', PBool False)]
     = Inl ValidationError"
proof -
  have 1: "map_of [(''block_type'', PStr ''Paragraph''), (''children'', PList [])] ''block_type''
             = Some (PStr ''Paragraph'')" by simp
  have 2: "hashable (PStr ''Paragraph'')" by simp
  have 3: "PStr ''Paragraph'' \<notin> PStr ` set module_globals"
    by (simp add: module_globals_def other_globals_def block_classes_def)
  have 4: "''ListBlock'' \<noteq> ''Translatable''" by simp
  show ?thesis
    using unknown_block_type_rejected [OF 1 2 3 4, of repr0 "[]" "[(''ordered'', PBool False)]"] .
qed

text \<open>
  C6. A child whose \<open>block_type\<close> names no block kind should fail to decode with the
  unknown-type error. The test \<open>block_type not in globals()\<close> lets through every other
  name of the module namespace: a child tagged \<open>Dict\<close>, \<open>pydantic\<close> or \<open>__name__\<close>, none
  of them a block kind, passes the test and the call of the global raises \<open>TypeError\<close>
  instead of the \<open>ValueError\<close> of line 19, and a child tagged \<open>BaseBlock\<close> is
  constructed as an instance of the abstract base.
\<close>

theorem C6_non_block_global_not_rejected:
  "''Dict'' \<notin> set concrete_block_kinds
   \<and> parse_child repr0 (PDict [(''block_type'', PStr ''Dict'')]) = Inl TypeError
   \<and> ''pydantic'' \<notin> set concrete_block_kinds
   \<and> parse_child repr0 (PDict [(''block_type'', PStr ''pydantic'')]) = Inl TypeError
   \<and> ''__name__'' \<notin> set concrete_block_kinds
   \<and> parse_child repr0 (PDict [(''block_type'', PStr ''__name__'')]) = Inl TypeError
   \<and> ''BaseBlock'' \<notin> set concrete_block_kinds
   \<and> parse_child repr0 (PDict [(''block_type'', PStr ''BaseBlock'')]) = Inr (PObj BaseBlock)
   \<and> Inl TypeError \<noteq> (Inl (ValueError ''Unknown Block Type: %s'') :: py_error + pyval)"
  by (simp add: concrete_block_kinds_def module_globals_def other_globals_def block_classes_def
        del_key_def init_fields_def)

section \<open>The application: results\<close>

lemma get_files_to_process_filter:
  assumes "get_files_to_process fs setting = Inr files"
  shows "\<exists>found. collect fs (case setting of OnePath p \<Rightarrow> [p] | PathList ps \<Rightarrow> ps) = Inr found
           \<and> files = filter (\<lambda>f. \<not> contains ''_translated'' (path_name f)) found"
proof (cases "collect fs (case setting of OnePath p \<Rightarrow> [p] | PathList ps \<Rightarrow> ps)")
  case (Inl e)
  with assms show ?thesis by (simp add: get_files_to_process_def)
next
  case (Inr found)
  let ?kept = "filter (\<lambda>f. \<not> contains ''_translated'' (path_name f)) found"
  show ?thesis
  proof (cases ?kept)
    case Nil
    with assms Inr show ?thesis by (simp add: get_files_to_process_def)
  next
    case (Cons first rest)
    with assms Inr have "files = ?kept"
      by (simp add: get_files_to_process_def Let_def split: sum.splits)
    with Inr show ?thesis by simp
  qed
qed

text \<open>
  C7 as stated fails: the \<open>return\<close> of the handler is inside the \<open>with\<close> block, so the
  provider's \<open>__exit__\<close> runs before \<open>process_file\<close> returns, and an exception it raises
  leaves \<open>process_file\<close> although the translation error was caught and logged.
\<close>

theorem C7_release_failure_counterexample:
  "process_file failing_release sample_settings \<lparr>absolute = False, names = [''docs'', ''intro.md'']\<rparr>
     = ([Processing \<lparr>absolute = False, names = [''docs'', ''intro.md'']\<rparr>,
         ErrorTranslating ''intro.md'', ExceptionLogged (ExceptionInstance ''timeout'')],
        Raised (ExceptionInstance ''driver quit failed''))
   \<and> Raised (ExceptionInstance ''driver quit failed'') \<noteq> Returned"
  by (simp add: process_file_def failing_release_def path_name_def)

text \<open>
  C7, amended. When the document parses, is due for translation, the provider is
  acquired, \<open>translate\<close> raises an \<open>Exception\<close>, and the provider's \<open>__exit__\<close> does not
  raise, \<open>process_file\<close> logs the failure and the exception, calls no \<open>write\<close>, and
  returns: nothing propagates to the caller.
\<close>

theorem C7_translation_failure_contained:
  assumes "from_file c file (ignore_cache s) = Inr document"
    and "doc_should_be_translated c document (new_file s) (overwrite s) = Inr True"
    and "provider_enter c = Inr provider"
    and "translate c document provider = (document', Some (ExceptionInstance msg))"
    and "provider_exit c None = Inr suppress"
  shows "process_file c s file =
           ([Processing file, ErrorTranslating (path_name file),
             ExceptionLogged (ExceptionInstance msg)], Returned)
         \<and> \<not> list_ex is_write (fst (process_file c s file))"
  using assms by (simp add: process_file_def)

theorem C7_translation_failure_contained_witness:
  "process_file failing_translation sample_settings \<lparr>absolute = False, names = [''docs'', ''intro.md'']\<rparr>
     = ([Processing \<lparr>absolute = False, names = [''docs'', ''intro.md'']\<rparr>,
         ErrorTranslating ''intro.md'', ExceptionLogged (ExceptionInstance ''timeout'')], Returned)"
proof -
  let ?file = "\<lparr>absolute = False, names = [''docs'', ''intro.md'']\<rparr>"
  have 1: "from_file failing_translation ?file (ignore_cache sample_settings) = Inr ''parsed''"
    by (simp add: failing_translation_def)
  have 2: "doc_should_be_translated failing_translation ''parsed'' (new_file sample_settings)
             (overwrite sample_settings) = Inr True"
    by (simp add: failing_translation_def)
  have 3: "provider_enter failing_translation = Inr ()"
    by (simp add: failing_translation_def)
  have 4: "translate failing_translation ''parsed'' ()
             = (''partly translated'', Some (ExceptionInstance ''timeout''))"
    by (simp add: failing_translation_def)
  have 5: "provider_exit failing_translation None = Inr False"
    by (simp add: failing_translation_def)
  show ?thesis
    using C7_translation_failure_contained [OF 1 2 3 4 5] by (simp add: path_name_def)
qed

text \<open>
  C10. Whenever \<open>_get_files_to_process\<close> returns, no returned file has a name that
  contains \<open>_translated\<close>.
\<close>

theorem C10_translated_files_excluded:
  assumes "get_files_to_process fs setting = Inr files"
  shows "\<forall>f \<in> set files. \<not> contains ''_translated'' (path_name f)"
proof -
  from get_files_to_process_filter [OF assms] obtain found
    where "files = filter (\<lambda>f. \<not> contains ''_translated'' (path_name f)) found" by blast
  then show ?thesis by simp
qed

theorem C10_translated_files_excluded_witness:
  "get_files_to_process sample_fs (OnePath \<lparr>absolute = False, names = [''docs'']\<rparr>)
     = Inr [\<lparr>absolute = False, names = [''docs'', ''intro.md'']\<rparr>]
   \<and> \<not> contains ''_translated'' (path_name \<lparr>absolute = False, names = [''docs'', ''intro.md'']\<rparr>)"
proof -
  have run: "get_files_to_process sample_fs (OnePath \<lparr>absolute = False, names = [''docs'']\<rparr>)
     = Inr [\<lparr>absolute = False, names = [''docs'', ''intro.md'']\<rparr>]"
    by (simp add: get_files_to_process_def sample_fs_def path_name_def parts_def Path_of_def
          relative_to_def Let_def)
  from C10_translated_files_excluded [OF run] run show ?thesis by simp
qed

end
